theory Spec2Isabelle
  imports Complex_Main "HOL-Library.Sublist"
begin

section \<open>The pretrained wav2vec 2.0 front-end\<close>

text \<open>
  A shallow embedding of \<^verbatim>\<open>fairseq2/models/wav2vec2/pretrained_frontend.py\<close>:
  the constructor of \<^verbatim>\<open>PretrainedWav2Vec2Frontend\<close>, which decides which stages
  exist, and its \<^verbatim>\<open>forward\<close> method, which runs the stages that exist in a fixed
  order.

  Python's \<^verbatim>\<open>int\<close> is \<open>int\<close>. The \<^verbatim>\<open>float\<close> arguments (the two dropout
  probabilities and \<^verbatim>\<open>norm_eps\<close>) are \<open>real\<close>: the constructor only passes them on
  and compares the probabilities with \<^verbatim>\<open>0.0\<close>. Tensors are opaque: \<open>'t\<close> for a sequence
  batch, \<open>'l\<close> for a tensor of lengths, \<open>'m\<close> for a padding mask. The device and the
  dtype are opaque values of types \<open>'dev\<close> and \<open>'dt\<close>.
\<close>

subsection \<open>Errors and effects\<close>

text \<open>
  The module raises \<^verbatim>\<open>ValueError\<close> with a message in two places. Anything raised by
  a collaborator (a shape mismatch inside a layer, say) is an opaque value of type
  \<open>'x\<close> and propagates unchanged.
\<close>

datatype 'x error = ValueError string | External 'x

text \<open>
  A computation runs on a state and ends with an error or a value, and with the state
  it has reached: an exception does not undo the effects that came before it.
\<close>

type_synonym ('a, 's, 'e) M = "'s \<Rightarrow> ('e + 'a) \<times> 's"

definition returnM :: "'a \<Rightarrow> ('a, 's, 'e) M" where
  "returnM x = (\<lambda>s. (Inr x, s))"

definition raiseM :: "'e \<Rightarrow> ('a, 's, 'e) M" where
  "raiseM e = (\<lambda>s. (Inl e, s))"

definition bindM :: "('a, 's, 'e) M \<Rightarrow> ('a \<Rightarrow> ('b, 's, 'e) M) \<Rightarrow> ('b, 's, 'e) M" where
  "bindM m f = (\<lambda>s. case m s of (Inl e, s') \<Rightarrow> (Inl e, s') | (Inr x, s') \<Rightarrow> f x s')"

text \<open>
  A collaborator (a layer, the feature extractor, the position encoder, the mask
  utility) works on the world outside the front-end, of type \<open>'w\<close>: the random number
  generator and the training mode that dropout reads, the parameters of the layers.
  It returns a value or raises.
\<close>

type_synonym ('a, 'w, 'x) ext = "'w \<Rightarrow> ('x + 'a) \<times> 'w"

subsection \<open>The collaborators\<close>

text \<open>
  \<^verbatim>\<open>SequenceFeatureExtractor\<close> and \<^verbatim>\<open>PositionEncoder\<close> are interfaces: an object
  that declares a dimension and can be called.
\<close>

record ('t, 'l, 'w, 'x) SequenceFeatureExtractor =
  out_dim :: int
  fe_call :: "'t \<Rightarrow> 'l option \<Rightarrow> ('t \<times> 'l option, 'w, 'x) ext"

record ('t, 'm, 'w, 'x) PositionEncoder =
  dim :: int
  pe_call :: "'t \<Rightarrow> 'm option \<Rightarrow> ('t, 'w, 'x) ext"

text \<open>
  The layers that the constructor instantiates itself are values that record the
  arguments of their constructor call: \<^verbatim>\<open>LayerNorm(shape, eps, device=, dtype=)\<close>,
  \<^verbatim>\<open>Linear(input_dim, output_dim, bias=, device=, dtype=)\<close> and \<^verbatim>\<open>Dropout(p)\<close>.
\<close>

datatype ('dev, 'dt) LayerNorm =
  LayerNorm (normalized_shape: int) (eps: real) (ln_device: "'dev option") (ln_dtype: "'dt option")

datatype ('dev, 'dt) Linear =
  Linear (input_dim: int) (output_dim: int) (bias: bool)
    (lin_device: "'dev option") (lin_dtype: "'dt option")

datatype Dropout = Dropout (p: real)

text \<open>
  These constructors belong to the numeric libraries and may raise on the arguments they
  are given (a dropout probability above one, a negative dimension, a dtype that cannot
  hold parameters). Which arguments each of them refuses is a parameter: \<open>None\<close> when
  the call builds the layer, the exception when it raises.
\<close>

record ('x, 'dev, 'dt) ctors =
  LayerNorm_raises :: "int \<Rightarrow> real \<Rightarrow> 'dev option \<Rightarrow> 'dt option \<Rightarrow> 'x option"
  Linear_raises :: "int \<Rightarrow> int \<Rightarrow> bool \<Rightarrow> 'dev option \<Rightarrow> 'dt option \<Rightarrow> 'x option"
  Dropout_raises :: "real \<Rightarrow> 'x option"

definition new_LayerNorm ::
  "('x, 'dev, 'dt) ctors \<Rightarrow> int \<Rightarrow> real \<Rightarrow> 'dev option \<Rightarrow> 'dt option
     \<Rightarrow> 'x error + ('dev, 'dt) LayerNorm" where
  "new_LayerNorm C shape epsilon device dtype =
     (case LayerNorm_raises C shape epsilon device dtype of
        Some x \<Rightarrow> Inl (External x)
      | None \<Rightarrow> Inr (LayerNorm shape epsilon device dtype))"

definition new_Linear ::
  "('x, 'dev, 'dt) ctors \<Rightarrow> int \<Rightarrow> int \<Rightarrow> bool \<Rightarrow> 'dev option \<Rightarrow> 'dt option
     \<Rightarrow> 'x error + ('dev, 'dt) Linear" where
  "new_Linear C inp outp with_bias device dtype =
     (case Linear_raises C inp outp with_bias device dtype of
        Some x \<Rightarrow> Inl (External x)
      | None \<Rightarrow> Inr (Linear inp outp with_bias device dtype))"

definition new_Dropout :: "('x, 'dev, 'dt) ctors \<Rightarrow> real \<Rightarrow> 'x error + Dropout" where
  "new_Dropout C prob =
     (case Dropout_raises C prob of
        Some x \<Rightarrow> Inl (External x)
      | None \<Rightarrow> Inr (Dropout prob))"

text \<open>What calling a layer does, and what the mask utility computes, are parameters.\<close>

record ('t, 'l, 'm, 'w, 'x, 'dev, 'dt) kernels =
  k_to_padding_mask :: "'t \<Rightarrow> 'l option \<Rightarrow> ('m option, 'w, 'x) ext"
  k_LayerNorm :: "('dev, 'dt) LayerNorm \<Rightarrow> 't \<Rightarrow> ('t, 'w, 'x) ext"
  k_Linear :: "('dev, 'dt) Linear \<Rightarrow> 't \<Rightarrow> ('t, 'w, 'x) ext"
  k_Dropout :: "Dropout \<Rightarrow> 't \<Rightarrow> ('t, 'w, 'x) ext"

subsection \<open>The front-end object\<close>

record ('t, 'l, 'm, 'w, 'x, 'dev, 'dt) frontend =
  model_dim :: int
  feature_extractor :: "('t, 'l, 'w, 'x) SequenceFeatureExtractor option"
  post_extract_layer_norm :: "('dev, 'dt) LayerNorm"
  post_extract_proj :: "('dev, 'dt) Linear option"
  post_extract_dropout :: "Dropout option"
  pos_encoder :: "('t, 'm, 'w, 'x) PositionEncoder option"
  layer_norm :: "('dev, 'dt) LayerNorm option"
  dropout :: "Dropout option"

subsection \<open>Formatting an integer\<close>

text \<open>The f-string of the constructor's error formats two integers in decimal.\<close>

definition digit_char :: "nat \<Rightarrow> char" where
  "digit_char d = char_of (48 + d)"

fun str_nat :: "nat \<Rightarrow> string" where
  "str_nat n = (if n < 10 then [digit_char n] else str_nat (n div 10) @ [digit_char (n mod 10)])"

definition str_int :: "int \<Rightarrow> string" where
  "str_int i = (if i < 0 then CHR ''-'' # str_nat (nat (- i)) else str_nat (nat i))"

subsection \<open>The constructor\<close>

definition feature_dim_of ::
  "int \<Rightarrow> ('t, 'l, 'w, 'x) SequenceFeatureExtractor option \<Rightarrow> int" where
  "feature_dim_of model_dim' feature_extractor' =
     (case feature_extractor' of Some fe \<Rightarrow> out_dim fe | None \<Rightarrow> model_dim')"

definition dim_mismatch_message :: "int \<Rightarrow> int \<Rightarrow> string" where
  "dim_mismatch_message pe_dim model_dim' =
     ''`dim` of `pos_encoder` and `model_dim` must be equal, but are '' @ str_int pe_dim
       @ '' and '' @ str_int model_dim' @ '' instead.''"

text \<open>
  The constructor runs its statements in the order of the source and stops at the first
  that raises: the base initializer, which stores \<^verbatim>\<open>model_dim\<close> (line 67), the choice
  of \<^verbatim>\<open>feature_dim\<close> (69 to 76), the post-extraction layer norm (line 78), the projection (82 to 87), the
  post-extraction dropout (89 to 92), the check of the position encoder (94 to 102), the
  final layer norm (104 to 107), the final dropout (109 to 112).
\<close>

definition bindE :: "'e + 'a \<Rightarrow> ('a \<Rightarrow> 'e + 'b) \<Rightarrow> 'e + 'b" where
  "bindE r f = (case r of Inl e \<Rightarrow> Inl e | Inr x \<Rightarrow> f x)"

definition init ::
  "('x, 'dev, 'dt) ctors \<Rightarrow> int \<Rightarrow> ('t, 'l, 'w, 'x) SequenceFeatureExtractor option
     \<Rightarrow> ('t, 'm, 'w, 'x) PositionEncoder option
     \<Rightarrow> real \<Rightarrow> bool \<Rightarrow> real \<Rightarrow> real \<Rightarrow> 'dev option \<Rightarrow> 'dt option
     \<Rightarrow> 'x error + ('t, 'l, 'm, 'w, 'x, 'dev, 'dt) frontend" where
  "init C model_dim' feature_extractor' pos_encoder' post_extract_dropout_p layer_norm'
        dropout_p norm_eps device dtype =
     (let feature_dim = feature_dim_of model_dim' feature_extractor' in
      bindE (new_LayerNorm C feature_dim norm_eps device dtype)
        (\<lambda>post_extract_layer_norm'.
      bindE (if feature_dim \<noteq> model_dim'
             then bindE (new_Linear C feature_dim model_dim' True device dtype)
                    (\<lambda>l. Inr (Some l))
             else Inr None)
        (\<lambda>post_extract_proj'.
      bindE (if post_extract_dropout_p > 0
             then bindE (new_Dropout C post_extract_dropout_p) (\<lambda>d. Inr (Some d))
             else Inr None)
        (\<lambda>post_extract_dropout'.
      bindE (case pos_encoder' of
               Some pe \<Rightarrow>
                 if dim pe \<noteq> model_dim'
                 then Inl (ValueError (dim_mismatch_message (dim pe) model_dim'))
                 else Inr (Some pe)
             | None \<Rightarrow> Inr None)
        (\<lambda>pos_encoder''.
      bindE (if layer_norm'
             then bindE (new_LayerNorm C model_dim' norm_eps device dtype)
                    (\<lambda>n. Inr (Some n))
             else Inr None)
        (\<lambda>layer_norm''.
      bindE (if dropout_p > 0
             then bindE (new_Dropout C dropout_p) (\<lambda>d. Inr (Some d))
             else Inr None)
        (\<lambda>dropout'.
      Inr \<lparr> model_dim = model_dim',
            feature_extractor = feature_extractor',
            post_extract_layer_norm = post_extract_layer_norm',
            post_extract_proj = post_extract_proj',
            post_extract_dropout = post_extract_dropout',
            pos_encoder = pos_encoder'',
            layer_norm = layer_norm'',
            dropout = dropout' \<rparr>)))))))"

text \<open>
  The constructor calls that come before the check of the position encoder build their
  layers, and the calls that come after it do. A call that the configuration does not
  make cannot raise.
\<close>

definition early_ctors_ok ::
  "('x, 'dev, 'dt) ctors \<Rightarrow> int \<Rightarrow> ('t, 'l, 'w, 'x) SequenceFeatureExtractor option
     \<Rightarrow> real \<Rightarrow> real \<Rightarrow> 'dev option \<Rightarrow> 'dt option \<Rightarrow> bool" where
  "early_ctors_ok C md fe pdp ep dev dt =
     (LayerNorm_raises C (feature_dim_of md fe) ep dev dt = None
      \<and> (feature_dim_of md fe \<noteq> md \<longrightarrow>
            Linear_raises C (feature_dim_of md fe) md True dev dt = None)
      \<and> (pdp > 0 \<longrightarrow> Dropout_raises C pdp = None))"

definition late_ctors_ok ::
  "('x, 'dev, 'dt) ctors \<Rightarrow> int \<Rightarrow> bool \<Rightarrow> real \<Rightarrow> real \<Rightarrow> 'dev option \<Rightarrow> 'dt option \<Rightarrow> bool" where
  "late_ctors_ok C md lnf dp ep dev dt =
     ((lnf \<longrightarrow> LayerNorm_raises C md ep dev dt = None)
      \<and> (dp > 0 \<longrightarrow> Dropout_raises C dp = None))"

definition encoder_fits :: "('t, 'm, 'w, 'x) PositionEncoder option \<Rightarrow> int \<Rightarrow> bool" where
  "encoder_fits pe md = (case pe of None \<Rightarrow> True | Some enc \<Rightarrow> dim enc = md)"

subsection \<open>The forward pass\<close>

text \<open>
  \<^verbatim>\<open>forward\<close> is a method: it runs on the front-end object and on the world. Reading
  a field of \<^verbatim>\<open>self\<close> reads the first component of the state; calling a
  collaborator changes the second.
\<close>

definition get_field :: "('f \<Rightarrow> 'a) \<Rightarrow> ('a, 'f \<times> 'w, 'e) M" where
  "get_field g = (\<lambda>s. (Inr (g (fst s)), s))"

definition call_ext :: "('a, 'w, 'x) ext \<Rightarrow> ('a, 'f \<times> 'w, 'x error) M" where
  "call_ext k = (\<lambda>s. case k (snd s) of
                       (Inl x, w') \<Rightarrow> (Inl (External x), (fst s, w'))
                     | (Inr a, w') \<Rightarrow> (Inr a, (fst s, w')))"

definition forward ::
  "('t, 'l, 'm, 'w, 'x, 'dev, 'dt) kernels \<Rightarrow> 't \<Rightarrow> 'l option \<Rightarrow> 'sb option
     \<Rightarrow> ('t \<times> 'm option, ('t, 'l, 'm, 'w, 'x, 'dev, 'dt) frontend \<times> 'w, 'x error) M" where
  "forward K seqs seq_lens state_bag =
     (case state_bag of
        Some _ \<Rightarrow>
          raiseM (ValueError
            ''`PretrainedWav2Vec2Frontend` does not support incremental evaluation.'')
      | None \<Rightarrow>
          bindM (bindM (get_field feature_extractor) (\<lambda>fe. case fe of
                   Some e \<Rightarrow> call_ext (fe_call e seqs seq_lens)
                 | None \<Rightarrow> returnM (seqs, seq_lens)))
            (\<lambda>(seqs, seq_lens).
          bindM (call_ext (k_to_padding_mask K seqs seq_lens))
            (\<lambda>padding_mask.
          bindM (bindM (get_field post_extract_layer_norm) (\<lambda>norm.
                   call_ext (k_LayerNorm K norm seqs)))
            (\<lambda>seqs.
          bindM (bindM (get_field post_extract_proj) (\<lambda>pr. case pr of
                   Some l \<Rightarrow> call_ext (k_Linear K l seqs)
                 | None \<Rightarrow> returnM seqs))
            (\<lambda>seqs.
          bindM (bindM (get_field post_extract_dropout) (\<lambda>dr. case dr of
                   Some d \<Rightarrow> call_ext (k_Dropout K d seqs)
                 | None \<Rightarrow> returnM seqs))
            (\<lambda>seqs.
          bindM (bindM (get_field pos_encoder) (\<lambda>pe. case pe of
                   Some e \<Rightarrow> call_ext (pe_call e seqs padding_mask)
                 | None \<Rightarrow> returnM seqs))
            (\<lambda>seqs.
          bindM (bindM (get_field layer_norm) (\<lambda>norm. case norm of
                   Some n \<Rightarrow> call_ext (k_LayerNorm K n seqs)
                 | None \<Rightarrow> returnM seqs))
            (\<lambda>seqs.
          bindM (bindM (get_field dropout) (\<lambda>dr. case dr of
                   Some d \<Rightarrow> call_ext (k_Dropout K d seqs)
                 | None \<Rightarrow> returnM seqs))
            (\<lambda>seqs.
          returnM (seqs, padding_mask))))))))))"

subsection \<open>The two halves of the forward pass\<close>

text \<open>
  Lines 126 to 129 of the source: the feature extractor, when there is one, replaces
  the sequences and the lengths; the padding mask is derived from what it returns.
\<close>

definition extract_step ::
  "'t \<Rightarrow> 'l option
     \<Rightarrow> ('t \<times> 'l option, ('t, 'l, 'm, 'w, 'x, 'dev, 'dt) frontend \<times> 'w, 'x error) M" where
  "extract_step seqs seq_lens =
     bindM (get_field feature_extractor) (\<lambda>fe. case fe of
        Some e \<Rightarrow> call_ext (fe_call e seqs seq_lens)
      | None \<Rightarrow> returnM (seqs, seq_lens))"

definition derive_mask ::
  "('t, 'l, 'm, 'w, 'x, 'dev, 'dt) kernels \<Rightarrow> 't \<Rightarrow> 'l option
     \<Rightarrow> ('t \<times> 'm option, ('t, 'l, 'm, 'w, 'x, 'dev, 'dt) frontend \<times> 'w, 'x error) M" where
  "derive_mask K seqs seq_lens =
     bindM (extract_step seqs seq_lens) (\<lambda>(seqs, seq_lens).
     bindM (call_ext (k_to_padding_mask K seqs seq_lens)) (\<lambda>padding_mask.
     returnM (seqs, padding_mask)))"

text \<open>
  Lines 131 to 146 of the source, as a function of the mask and of the sequences that
  line 129 has left: six stages, each of which returns sequences only.
\<close>

definition sequence_stages ::
  "('t, 'l, 'm, 'w, 'x, 'dev, 'dt) kernels \<Rightarrow> 'm option \<Rightarrow> 't
     \<Rightarrow> ('t, ('t, 'l, 'm, 'w, 'x, 'dev, 'dt) frontend \<times> 'w, 'x error) M" where
  "sequence_stages K padding_mask seqs =
     bindM (bindM (get_field post_extract_layer_norm) (\<lambda>norm.
              call_ext (k_LayerNorm K norm seqs)))
       (\<lambda>seqs.
     bindM (bindM (get_field post_extract_proj) (\<lambda>pr. case pr of
              Some l \<Rightarrow> call_ext (k_Linear K l seqs)
            | None \<Rightarrow> returnM seqs))
       (\<lambda>seqs.
     bindM (bindM (get_field post_extract_dropout) (\<lambda>dr. case dr of
              Some d \<Rightarrow> call_ext (k_Dropout K d seqs)
            | None \<Rightarrow> returnM seqs))
       (\<lambda>seqs.
     bindM (bindM (get_field pos_encoder) (\<lambda>pe. case pe of
              Some e \<Rightarrow> call_ext (pe_call e seqs padding_mask)
            | None \<Rightarrow> returnM seqs))
       (\<lambda>seqs.
     bindM (bindM (get_field layer_norm) (\<lambda>norm. case norm of
              Some n \<Rightarrow> call_ext (k_LayerNorm K n seqs)
            | None \<Rightarrow> returnM seqs))
       (\<lambda>seqs.
     bindM (get_field dropout) (\<lambda>dr. case dr of
              Some d \<Rightarrow> call_ext (k_Dropout K d seqs)
            | None \<Rightarrow> returnM seqs))))))"

subsection \<open>The pipeline as the specification words it\<close>

text \<open>
  The specification describes the forward pass as a list of stages run in order on the
  sequences, the lengths and the mask, where a stage that was not configured passes its
  input through. The definitions below follow those words; the mask slot is empty until
  the mask stage fills it.
\<close>

type_synonym ('t, 'l, 'm) frame = "'t \<times> 'l option \<times> 'm option"

definition optional_stage ::
  "'a option \<Rightarrow> ('a \<Rightarrow> 'b \<Rightarrow> ('b, 's, 'e) M) \<Rightarrow> 'b \<Rightarrow> ('b, 's, 'e) M" where
  "optional_stage st run x = (case st of None \<Rightarrow> returnM x | Some a \<Rightarrow> run a x)"

fun compose_stages :: "('b \<Rightarrow> ('b, 's, 'e) M) list \<Rightarrow> 'b \<Rightarrow> ('b, 's, 'e) M" where
  "compose_stages [] x = returnM x"
| "compose_stages (g # gs) x = bindM (g x) (compose_stages gs)"

definition extraction_stage ::
  "('t, 'l, 'w, 'x) SequenceFeatureExtractor \<Rightarrow> ('t, 'l, 'm) frame
     \<Rightarrow> (('t, 'l, 'm) frame, 'f \<times> 'w, 'x error) M" where
  "extraction_stage e = (\<lambda>(seqs, seq_lens, mask).
     bindM (call_ext (fe_call e seqs seq_lens)) (\<lambda>(seqs', seq_lens').
     returnM (seqs', seq_lens', mask)))"

definition mask_stage ::
  "('t, 'l, 'm, 'w, 'x, 'dev, 'dt) kernels \<Rightarrow> ('t, 'l, 'm) frame
     \<Rightarrow> (('t, 'l, 'm) frame, 'f \<times> 'w, 'x error) M" where
  "mask_stage K = (\<lambda>(seqs, seq_lens, mask).
     bindM (call_ext (k_to_padding_mask K seqs seq_lens)) (\<lambda>mask'.
     returnM (seqs, seq_lens, mask')))"

definition sequence_stage ::
  "('t \<Rightarrow> ('t, 'w, 'x) ext) \<Rightarrow> ('t, 'l, 'm) frame
     \<Rightarrow> (('t, 'l, 'm) frame, 'f \<times> 'w, 'x error) M" where
  "sequence_stage g = (\<lambda>(seqs, seq_lens, mask).
     bindM (call_ext (g seqs)) (\<lambda>seqs'. returnM (seqs', seq_lens, mask)))"

definition position_stage ::
  "('t, 'm, 'w, 'x) PositionEncoder \<Rightarrow> ('t, 'l, 'm) frame
     \<Rightarrow> (('t, 'l, 'm) frame, 'f \<times> 'w, 'x error) M" where
  "position_stage e = (\<lambda>(seqs, seq_lens, mask).
     bindM (call_ext (pe_call e seqs mask)) (\<lambda>seqs'. returnM (seqs', seq_lens, mask)))"

definition pipeline ::
  "('t, 'l, 'm, 'w, 'x, 'dev, 'dt) kernels \<Rightarrow> ('t, 'l, 'm, 'w, 'x, 'dev, 'dt) frontend
     \<Rightarrow> (('t, 'l, 'm) frame \<Rightarrow> (('t, 'l, 'm) frame, 'f \<times> 'w, 'x error) M) list" where
  "pipeline K self =
     [optional_stage (feature_extractor self) extraction_stage,
      mask_stage K,
      sequence_stage (k_LayerNorm K (post_extract_layer_norm self)),
      optional_stage (post_extract_proj self) (\<lambda>l. sequence_stage (k_Linear K l)),
      optional_stage (post_extract_dropout self) (\<lambda>d. sequence_stage (k_Dropout K d)),
      optional_stage (pos_encoder self) position_stage,
      optional_stage (layer_norm self) (\<lambda>n. sequence_stage (k_LayerNorm K n)),
      optional_stage (dropout self) (\<lambda>d. sequence_stage (k_Dropout K d))]"

definition forward_spec ::
  "('t, 'l, 'm, 'w, 'x, 'dev, 'dt) kernels \<Rightarrow> ('t, 'l, 'm, 'w, 'x, 'dev, 'dt) frontend
     \<Rightarrow> 't \<Rightarrow> 'l option \<Rightarrow> ('t \<times> 'm option, 'f \<times> 'w, 'x error) M" where
  "forward_spec K self seqs seq_lens =
     bindM (compose_stages (pipeline K self) (seqs, seq_lens, None))
       (\<lambda>(seqs', seq_lens', mask). returnM (seqs', mask))"

subsection \<open>Frame conditions\<close>

text \<open>A computation keeps the front-end when it ends on the object it started on.\<close>

definition keeps_self :: "('a, 'f \<times> 'w, 'e) M \<Rightarrow> bool" where
  "keeps_self m = (\<forall>s. fst (snd (m s)) = fst s)"

subsection \<open>The padding mask\<close>

text \<open>
  Modelled from the spec: \<^verbatim>\<open>to_padding_mask\<close> of \<^verbatim>\<open>fairseq2.nn.utils.mask\<close> is
  imported by the module and is not among its sources. The specification gives it as
  \<^verbatim>\<open>(sequence, lengths) -> mask_or_absent\<close>: with no lengths the mask is absent; with
  lengths, for each batch item the positions at or beyond its length are marked
  invalid, over the time dimension of the sequence batch. Here a sequence batch is a
  list (batch) of lists (time) of feature vectors, the lengths are a list of integers,
  and a mask is a list (batch) of lists (time) of truth values, \<open>True\<close> for invalid.
\<close>

definition time_dim :: "'v list list \<Rightarrow> nat" where
  "time_dim seqs = (case seqs of [] \<Rightarrow> 0 | row # _ \<Rightarrow> length row)"

definition to_padding_mask :: "'v list list \<Rightarrow> int list option \<Rightarrow> bool list list option" where
  "to_padding_mask seqs seq_lens =
     (case seq_lens of
        None \<Rightarrow> None
      | Some lens \<Rightarrow> Some (map (\<lambda>n. map (\<lambda>i. n \<le> int i) [0..<time_dim seqs]) lens))"

definition mask_kernel ::
  "'v list list \<Rightarrow> int list option \<Rightarrow> (bool list list option, 'w, 'x) ext" where
  "mask_kernel seqs seq_lens = (\<lambda>w. (Inr (to_padding_mask seqs seq_lens), w))"

subsection \<open>The layers that the constructor instantiates\<close>

text \<open>
  To speak of every layer that the constructor instantiates: the layers of a front-end
  in the order of their construction, and the placement arguments that the constructor
  call of each received. \<^verbatim>\<open>Dropout(p)\<close> receives none.
\<close>

datatype ('dev, 'dt) module =
  LayerNormModule "('dev, 'dt) LayerNorm"
| LinearModule "('dev, 'dt) Linear"
| DropoutModule Dropout

definition instantiated ::
  "('t, 'l, 'm, 'w, 'x, 'dev, 'dt) frontend \<Rightarrow> ('dev, 'dt) module list" where
  "instantiated self =
     [LayerNormModule (post_extract_layer_norm self)]
     @ (case post_extract_proj self of Some l \<Rightarrow> [LinearModule l] | None \<Rightarrow> [])
     @ (case post_extract_dropout self of Some d \<Rightarrow> [DropoutModule d] | None \<Rightarrow> [])
     @ (case layer_norm self of Some n \<Rightarrow> [LayerNormModule n] | None \<Rightarrow> [])
     @ (case dropout self of Some d \<Rightarrow> [DropoutModule d] | None \<Rightarrow> [])"

fun placement :: "('dev, 'dt) module \<Rightarrow> ('dev option \<times> 'dt option) option" where
  "placement (LayerNormModule n) = Some (ln_device n, ln_dtype n)"
| "placement (LinearModule l) = Some (lin_device l, lin_dtype l)"
| "placement (DropoutModule d) = None"

subsection \<open>Concrete collaborators\<close>

text \<open>
  Collaborators to run the definitions on: constructors that refuse what the numeric
  libraries refuse (a dropout probability outside \<open>[0, 1]\<close>, a negative dimension),
  layers that add a number to every feature, an extractor that keeps the first two
  positions of every item, a position encoder that zeroes the features of the invalid
  positions.
\<close>

definition strict_ctors :: "(string, string, string) ctors" where
  "strict_ctors =
     \<lparr> LayerNorm_raises = (\<lambda>shape epsilon device dtype.
         if shape < 0 then Some ''Trying to create tensor with negative dimension'' else None),
       Linear_raises = (\<lambda>inp outp with_bias device dtype.
         if inp < 0 \<or> outp < 0 then Some ''Trying to create tensor with negative dimension''
         else None),
       Dropout_raises = (\<lambda>prob.
         if prob < 0 \<or> prob > 1 then Some ''dropout probability has to be between 0 and 1''
         else None) \<rparr>"

definition add_to_all :: "int \<Rightarrow> int list list \<Rightarrow> (int list list, nat, string) ext" where
  "add_to_all c seqs = (\<lambda>w. (Inr (map (map (\<lambda>v. v + c)) seqs), w + 1))"

definition demo_kernels ::
  "(int list list, int list, bool list list, nat, string, string, string) kernels" where
  "demo_kernels =
     \<lparr> k_to_padding_mask = mask_kernel,
       k_LayerNorm = (\<lambda>n. add_to_all (normalized_shape n)),
       k_Linear = (\<lambda>l. add_to_all (output_dim l)),
       k_Dropout = (\<lambda>d. add_to_all 1) \<rparr>"

definition demo_extractor :: "(int list list, int list, nat, string) SequenceFeatureExtractor" where
  "demo_extractor =
     \<lparr> out_dim = 80,
       fe_call = (\<lambda>seqs seq_lens w.
         (Inr (map (take 2) seqs, map_option (map (min 2)) seq_lens), w + 1)) \<rparr>"

definition demo_encoder :: "(int list list, bool list list, nat, string) PositionEncoder" where
  "demo_encoder =
     \<lparr> dim = 256,
       pe_call = (\<lambda>seqs mask w.
         (Inr (case mask of
                 None \<Rightarrow> seqs
               | Some rows \<Rightarrow> map2 (map2 (\<lambda>v bad. if bad then 0 else v)) seqs rows), w + 1)) \<rparr>"

definition demo_frontend ::
  "(int list list, int list, bool list list, nat, string, string, string) frontend" where
  "demo_frontend =
     \<lparr> model_dim = 256,
       feature_extractor = Some demo_extractor,
       post_extract_layer_norm = LayerNorm 80 (1 / 100000) (Some ''cuda:0'') (Some ''float16''),
       post_extract_proj = Some (Linear 80 256 True (Some ''cuda:0'') (Some ''float16'')),
       post_extract_dropout = Some (Dropout (1 / 2)),
       pos_encoder = Some demo_encoder,
       layer_norm = Some (LayerNorm 256 (1 / 100000) (Some ''cuda:0'') (Some ''float16'')),
       dropout = None \<rparr>"

section \<open>Laws of the computations\<close>

lemma bindM_returnM: "bindM (returnM x) f = f x"
  by (simp add: bindM_def returnM_def)

lemma returnM_apply: "returnM x s = (Inr x, s)"
  by (simp add: returnM_def)

lemma bindM_assoc: "bindM (bindM m f) g = bindM m (\<lambda>x. bindM (f x) g)"
  by (auto simp: bindM_def fun_eq_iff split: prod.splits sum.splits)

lemma bindM_get_field: "bindM (get_field g) h s = h (g (fst s)) s"
  by (simp add: bindM_def get_field_def)

lemma bindM_call_ext:
  "bindM (call_ext k) h (f, w) =
     (case k w of
        (Inl x, w') \<Rightarrow> (Inl (External x), (f, w'))
      | (Inr a, w') \<Rightarrow> h a (f, w'))"
  by (simp add: bindM_def call_ext_def split: prod.splits sum.splits)

lemma bindM_Inr_iff:
  "bindM m f s = (Inr y, s') \<longleftrightarrow> (\<exists>x s1. m s = (Inr x, s1) \<and> f x s1 = (Inr y, s'))"
  by (auto simp: bindM_def split: prod.splits sum.splits)

subsection \<open>No computation of the forward pass replaces the front-end\<close>

lemma keeps_self_returnM: "keeps_self (returnM x)"
  by (simp add: keeps_self_def returnM_def)

lemma keeps_self_raiseM: "keeps_self (raiseM e)"
  by (simp add: keeps_self_def raiseM_def)

lemma keeps_self_get_field: "keeps_self (get_field g)"
  by (simp add: keeps_self_def get_field_def)

lemma keeps_self_call_ext: "keeps_self (call_ext k)"
  by (simp add: keeps_self_def call_ext_def split: prod.splits sum.splits)

lemma keeps_self_bindM:
  assumes "keeps_self m" and "\<And>x. keeps_self (f x)"
  shows "keeps_self (bindM m f)"
  unfolding keeps_self_def
proof
  fix s
  obtain r s1 where ms: "m s = (r, s1)" by (cases "m s")
  from assms(1) have "fst (snd (m s)) = fst s"
    unfolding keeps_self_def by blast
  with ms have s1: "fst s1 = fst s" by simp
  show "fst (snd (bindM m f s)) = fst s"
  proof (cases r)
    case (Inl e)
    with ms s1 show ?thesis by (simp add: bindM_def)
  next
    case (Inr x)
    from assms(2)[of x] have "fst (snd (f x s1)) = fst s1"
      unfolding keeps_self_def by blast
    with Inr ms s1 show ?thesis by (simp add: bindM_def)
  qed
qed

lemma keeps_self_case_option:
  "keeps_self a \<Longrightarrow> (\<And>x. keeps_self (b x))
     \<Longrightarrow> keeps_self (case v of None \<Rightarrow> a | Some x \<Rightarrow> b x)"
  by (cases v) simp_all

lemmas keeps_self_intros =
  keeps_self_returnM keeps_self_raiseM keeps_self_get_field keeps_self_call_ext
  keeps_self_bindM keeps_self_case_option

lemma keeps_self_forward: "keeps_self (forward K seqs seq_lens state_bag)"
  unfolding forward_def
  by (intro keeps_self_intros) (simp_all add: keeps_self_intros split: prod.splits)

subsection \<open>The forward pass in two halves\<close>

lemma forward_split:
  "forward K seqs seq_lens None =
     bindM (derive_mask K seqs seq_lens) (\<lambda>(s, m).
     bindM (sequence_stages K m s) (\<lambda>out. returnM (out, m)))"
  by (simp add: forward_def derive_mask_def sequence_stages_def extract_step_def
      bindM_assoc bindM_returnM split_def cong: option.case_cong)

lemma forward_result:
  assumes "forward K seqs seq_lens None st = (Inr (out, pmask), st')"
  shows "\<exists>sq st2. derive_mask K seqs seq_lens st = (Inr (sq, pmask), st2)
                  \<and> sequence_stages K pmask sq st2 = (Inr out, st')"
proof -
  from assms have
    "bindM (derive_mask K seqs seq_lens) (\<lambda>x.
       bindM (sequence_stages K (snd x) (fst x)) (\<lambda>out. returnM (out, snd x))) st
     = (Inr (out, pmask), st')"
    by (simp add: forward_split split_def)
  then obtain x st2 where d: "derive_mask K seqs seq_lens st = (Inr x, st2)"
    and r: "bindM (sequence_stages K (snd x) (fst x)) (\<lambda>out. returnM (out, snd x)) st2
            = (Inr (out, pmask), st')"
    unfolding bindM_Inr_iff [of "derive_mask K seqs seq_lens"] by blast
  from r have "sequence_stages K (snd x) (fst x) st2 = (Inr out, st') \<and> snd x = pmask"
    by (auto simp: bindM_Inr_iff returnM_apply)
  with d show ?thesis
    by (cases x) auto
qed

lemma derive_mask_after_extract:
  assumes "extract_step seqs seq_lens st = (Inr (s1, l1), st1)"
  shows "derive_mask K seqs seq_lens st
         = bindM (call_ext (k_to_padding_mask K s1 l1)) (\<lambda>m. returnM (s1, m)) st1"
  using assms by (simp add: derive_mask_def bindM_def)

lemma call_ext_mask_kernel:
  "call_ext (mask_kernel s l) st = (Inr (to_padding_mask s l), st)"
  by (simp add: call_ext_def mask_kernel_def)

subsection \<open>The forward pass and the pipeline of the specification\<close>

lemma forward_pipeline:
  "forward K seqs seq_lens None (self, w) = forward_spec K self seqs seq_lens (self, w)"
  by (simp add: forward_def forward_spec_def pipeline_def optional_stage_def
      extraction_stage_def mask_stage_def sequence_stage_def position_stage_def
      bindM_assoc bindM_returnM bindM_get_field bindM_call_ext split_def
      cong: sum.case_cong prod.case_cong option.case_cong
      split: option.splits prod.splits sum.splits)


subsection \<open>The constructor, outcome by outcome\<close>

lemma init_success:
  assumes "early_ctors_ok C md fe pdp ep dev dt" and "encoder_fits pe md"
    and "late_ctors_ok C md lnf dp ep dev dt"
  shows "init C md fe pe pdp lnf dp ep dev dt =
     Inr \<lparr> model_dim = md, feature_extractor = fe,
           post_extract_layer_norm = LayerNorm (feature_dim_of md fe) ep dev dt,
           post_extract_proj =
             (if feature_dim_of md fe \<noteq> md
              then Some (Linear (feature_dim_of md fe) md True dev dt) else None),
           post_extract_dropout = (if pdp > 0 then Some (Dropout pdp) else None),
           pos_encoder = pe,
           layer_norm = (if lnf then Some (LayerNorm md ep dev dt) else None),
           dropout = (if dp > 0 then Some (Dropout dp) else None) \<rparr>"
  using assms
  by (auto simp: init_def Let_def bindE_def new_LayerNorm_def new_Linear_def new_Dropout_def
      early_ctors_ok_def late_ctors_ok_def encoder_fits_def split: option.splits)

lemma init_mismatch:
  assumes "early_ctors_ok C md fe pdp ep dev dt" and "pe = Some enc" and "dim enc \<noteq> md"
  shows "init C md fe pe pdp lnf dp ep dev dt
         = Inl (ValueError (dim_mismatch_message (dim enc) md))"
  using assms
  by (simp add: init_def Let_def bindE_def new_LayerNorm_def new_Linear_def new_Dropout_def
      early_ctors_ok_def split: option.splits)

lemma init_early_raises:
  assumes "\<not> early_ctors_ok C md fe pdp ep dev dt"
  shows "\<exists>x. init C md fe pe pdp lnf dp ep dev dt = Inl (External x)"
  using assms
  by (auto simp: init_def Let_def bindE_def new_LayerNorm_def new_Linear_def new_Dropout_def
      early_ctors_ok_def split: option.splits)

lemma init_late_raises:
  assumes "early_ctors_ok C md fe pdp ep dev dt" and "encoder_fits pe md"
    and "\<not> late_ctors_ok C md lnf dp ep dev dt"
  shows "\<exists>x. init C md fe pe pdp lnf dp ep dev dt = Inl (External x)"
  using assms
  by (auto simp: init_def Let_def bindE_def new_LayerNorm_def new_Linear_def new_Dropout_def
      early_ctors_ok_def late_ctors_ok_def encoder_fits_def split: option.splits)

lemma encoder_fits_iff: "encoder_fits pe md = (\<not> (\<exists>enc. pe = Some enc \<and> dim enc \<noteq> md))"
  by (simp add: encoder_fits_def split: option.splits)

lemma init_returns_iff:
  "(\<exists>self. init C md fe pe pdp lnf dp ep dev dt = Inr self)
   = (early_ctors_ok C md fe pdp ep dev dt \<and> encoder_fits pe md
      \<and> late_ctors_ok C md lnf dp ep dev dt)"
proof (cases "early_ctors_ok C md fe pdp ep dev dt")
  case False
  from init_early_raises [OF False, of pe lnf dp] False show ?thesis by auto
next
  case early: True
  show ?thesis
  proof (cases "encoder_fits pe md")
    case False
    then obtain enc where "pe = Some enc" "dim enc \<noteq> md"
      by (auto simp: encoder_fits_iff)
    from init_mismatch [OF early this, of lnf dp] False show ?thesis by simp
  next
    case fits: True
    show ?thesis
    proof (cases "late_ctors_ok C md lnf dp ep dev dt")
      case False
      from init_late_raises [OF early fits False] early fits False show ?thesis by auto
    next
      case True
      from init_success [OF early fits True] early fits True show ?thesis by simp
    qed
  qed
qed

lemma init_fields:
  assumes "init C md fe pe pdp lnf dp ep dev dt = Inr self"
  shows "post_extract_layer_norm self = LayerNorm (feature_dim_of md fe) ep dev dt"
    and "post_extract_proj self =
           (if feature_dim_of md fe \<noteq> md
            then Some (Linear (feature_dim_of md fe) md True dev dt) else None)"
    and "post_extract_dropout self = (if pdp > 0 then Some (Dropout pdp) else None)"
    and "layer_norm self = (if lnf then Some (LayerNorm md ep dev dt) else None)"
    and "dropout self = (if dp > 0 then Some (Dropout dp) else None)"
    and "feature_extractor self = fe"
    and "pos_encoder self = pe"
proof -
  from assms have "\<exists>self. init C md fe pe pdp lnf dp ep dev dt = Inr self"
    by blast
  then have ok: "early_ctors_ok C md fe pdp ep dev dt" "encoder_fits pe md"
    "late_ctors_ok C md lnf dp ep dev dt"
    by (simp_all add: init_returns_iff)
  from init_success [OF ok] assms
  have self: "self = \<lparr> model_dim = md, feature_extractor = fe,
           post_extract_layer_norm = LayerNorm (feature_dim_of md fe) ep dev dt,
           post_extract_proj =
             (if feature_dim_of md fe \<noteq> md
              then Some (Linear (feature_dim_of md fe) md True dev dt) else None),
           post_extract_dropout = (if pdp > 0 then Some (Dropout pdp) else None),
           pos_encoder = pe,
           layer_norm = (if lnf then Some (LayerNorm md ep dev dt) else None),
           dropout = (if dp > 0 then Some (Dropout dp) else None) \<rparr>"
    by simp
  show "post_extract_layer_norm self = LayerNorm (feature_dim_of md fe) ep dev dt"
    by (simp add: self)
  show "post_extract_proj self =
           (if feature_dim_of md fe \<noteq> md
            then Some (Linear (feature_dim_of md fe) md True dev dt) else None)"
    by (simp add: self)
  show "post_extract_dropout self = (if pdp > 0 then Some (Dropout pdp) else None)"
    by (simp add: self)
  show "layer_norm self = (if lnf then Some (LayerNorm md ep dev dt) else None)"
    by (simp add: self)
  show "dropout self = (if dp > 0 then Some (Dropout dp) else None)"
    by (simp add: self)
  show "feature_extractor self = fe"
    by (simp add: self)
  show "pos_encoder self = pe"
    by (simp add: self)
qed



subsection \<open>The mask of the specification\<close>

lemma to_padding_mask_None: "to_padding_mask seqs None = None"
  by (simp add: to_padding_mask_def)

lemma to_padding_mask_Some:
  "\<exists>rows. to_padding_mask seqs (Some lens) = Some rows \<and> length rows = length lens
     \<and> (\<forall>b<length lens. length (rows ! b) = time_dim seqs
           \<and> (\<forall>i<time_dim seqs. rows ! b ! i = (lens ! b \<le> int i)))"
  by (simp add: to_padding_mask_def)

lemma bindM_mask_kernel:
  "bindM (call_ext (mask_kernel s l)) f = f (to_padding_mask s l)"
  by (simp add: bindM_def call_ext_mask_kernel fun_eq_iff)

subsection \<open>Runs of the constructor and of the forward pass\<close>

lemma strict_ctors_fields:
  "LayerNorm_raises strict_ctors shape epsilon device dtype
     = (if shape < 0 then Some ''Trying to create tensor with negative dimension'' else None)"
  "Linear_raises strict_ctors inp outp with_bias device dtype
     = (if inp < 0 \<or> outp < 0 then Some ''Trying to create tensor with negative dimension''
        else None)"
  "Dropout_raises strict_ctors prob
     = (if prob < 0 \<or> prob > 1 then Some ''dropout probability has to be between 0 and 1''
        else None)"
  by (simp_all add: strict_ctors_def)

lemma demo_dims: "out_dim demo_extractor = 80" "dim demo_encoder = 256"
  by (simp_all add: demo_extractor_def demo_encoder_def)

lemma demo_frontend_init:
  "init strict_ctors 256 (Some demo_extractor) (Some demo_encoder) (1 / 2) True 0 (1 / 100000)
     (Some ''cuda:0'') (Some ''float16'') = Inr demo_frontend"
  by (simp add: init_success early_ctors_ok_def late_ctors_ok_def encoder_fits_def
      strict_ctors_fields feature_dim_of_def demo_dims demo_frontend_def)

lemma demo_frontend_fields:
  "feature_extractor demo_frontend = Some demo_extractor"
  "post_extract_layer_norm demo_frontend
     = LayerNorm 80 (1 / 100000) (Some ''cuda:0'') (Some ''float16'')"
  "post_extract_proj demo_frontend
     = Some (Linear 80 256 True (Some ''cuda:0'') (Some ''float16''))"
  "post_extract_dropout demo_frontend = Some (Dropout (1 / 2))"
  "pos_encoder demo_frontend = Some demo_encoder"
  "layer_norm demo_frontend
     = Some (LayerNorm 256 (1 / 100000) (Some ''cuda:0'') (Some ''float16''))"
  "dropout demo_frontend = None"
  by (simp_all add: demo_frontend_def)

lemma demo_kernels_fields:
  "k_to_padding_mask demo_kernels = mask_kernel"
  "k_LayerNorm demo_kernels = (\<lambda>n. add_to_all (normalized_shape n))"
  "k_Linear demo_kernels = (\<lambda>l. add_to_all (output_dim l))"
  "k_Dropout demo_kernels = (\<lambda>d. add_to_all 1)"
  by (simp_all add: demo_kernels_def)

lemma demo_extract_step:
  "extract_step [[1, 2, 3], [4, 5, 6]] (Some [3, 1]) (demo_frontend, 0)
   = (Inr ([[1, 2], [4, 5]], Some [2, 1]), (demo_frontend, 1))"
  by (simp add: extract_step_def bindM_get_field demo_frontend_fields call_ext_def
      demo_extractor_def)

lemma demo_mask:
  "to_padding_mask [[1, 2], [4, 5 :: int]] (Some [2, 1]) = Some [[False, False], [False, True]]"
  by (simp add: to_padding_mask_def time_dim_def upt_rec)

lemma demo_derive_mask:
  "derive_mask demo_kernels [[1, 2, 3], [4, 5, 6]] (Some [3, 1]) (demo_frontend, 0)
   = (Inr ([[1, 2], [4, 5]], Some [[False, False], [False, True]]), (demo_frontend, 1))"
  by (simp add: derive_mask_after_extract [OF demo_extract_step] demo_kernels_fields
      bindM_mask_kernel demo_mask returnM_apply)

lemma demo_forward:
  "forward demo_kernels [[1, 2, 3], [4, 5, 6]] (Some [3, 1]) None (demo_frontend, 0)
   = (Inr ([[594, 595], [597, 256]], Some [[False, False], [False, True]]),
      (demo_frontend, 6))"
  by (simp add: forward_def bindM_assoc bindM_get_field bindM_call_ext bindM_returnM
      demo_frontend_fields demo_kernels_fields demo_extractor_def demo_encoder_def
      add_to_all_def mask_kernel_def demo_mask returnM_apply)

lemma demo_forward_no_lengths:
  "forward demo_kernels [[1, 2, 3], [4, 5, 6]] None None (demo_frontend, 0)
   = (Inr ([[594, 595], [597, 598]], None), (demo_frontend, 6))"
  by (simp add: forward_def bindM_assoc bindM_get_field bindM_call_ext bindM_returnM
      demo_frontend_fields demo_kernels_fields demo_extractor_def demo_encoder_def
      add_to_all_def mask_kernel_def to_padding_mask_None returnM_apply)

lemma demo_sequence_stages:
  "sequence_stages demo_kernels (Some [[False, False], [False, True]]) [[1, 2], [4, 5]]
     (demo_frontend, 1)
   = (Inr [[594, 595], [597, 256]], (demo_frontend, 6))"
  by (simp add: sequence_stages_def bindM_assoc bindM_get_field bindM_call_ext bindM_returnM
      demo_frontend_fields demo_kernels_fields demo_encoder_def add_to_all_def
      returnM_apply)


section \<open>The constructor\<close>




text \<open>
  C5. Whenever the constructor calls build their layers and the position encoder fits,
  construction returns a front-end. On every front-end that it returns, the
  post-extraction normalizer is over \<^verbatim>\<open>feature_dim\<close>, which is the extractor's
  \<^verbatim>\<open>out_dim\<close> when an extractor is supplied and \<^verbatim>\<open>model_dim\<close> otherwise; the
  projection exists exactly when \<^verbatim>\<open>feature_dim\<close> differs from \<^verbatim>\<open>model_dim\<close>, and is
  then the linear layer from \<^verbatim>\<open>feature_dim\<close> to \<^verbatim>\<open>model_dim\<close> with a bias; with no
  extractor there is no projection.
\<close>

theorem init_feature_dim_and_projection:
  "(early_ctors_ok C md fe pdp ep dev dt \<and> encoder_fits pe md
      \<and> late_ctors_ok C md lnf dp ep dev dt
      \<longrightarrow> (\<exists>self. init C md fe pe pdp lnf dp ep dev dt = Inr self))
   \<and> (\<forall>self. init C md fe pe pdp lnf dp ep dev dt = Inr self \<longrightarrow>
         (\<forall>e. fe = Some e \<longrightarrow> feature_dim_of md fe = out_dim e)
         \<and> (fe = None \<longrightarrow> feature_dim_of md fe = md)
         \<and> normalized_shape (post_extract_layer_norm self) = feature_dim_of md fe
         \<and> (post_extract_proj self \<noteq> None) = (feature_dim_of md fe \<noteq> md)
         \<and> (feature_dim_of md fe \<noteq> md \<longrightarrow>
               post_extract_proj self = Some (Linear (feature_dim_of md fe) md True dev dt))
         \<and> (fe = None \<longrightarrow> post_extract_proj self = None))"
proof -
  have total: "early_ctors_ok C md fe pdp ep dev dt \<and> encoder_fits pe md
      \<and> late_ctors_ok C md lnf dp ep dev dt
      \<longrightarrow> (\<exists>self. init C md fe pe pdp lnf dp ep dev dt = Inr self)"
    by (simp add: init_returns_iff)
  have fd: "(\<forall>e. fe = Some e \<longrightarrow> feature_dim_of md fe = out_dim e)
            \<and> (fe = None \<longrightarrow> feature_dim_of md fe = md)"
    by (simp add: feature_dim_of_def)
  have fields: "\<forall>self. init C md fe pe pdp lnf dp ep dev dt = Inr self \<longrightarrow>
         (\<forall>e. fe = Some e \<longrightarrow> feature_dim_of md fe = out_dim e)
         \<and> (fe = None \<longrightarrow> feature_dim_of md fe = md)
         \<and> normalized_shape (post_extract_layer_norm self) = feature_dim_of md fe
         \<and> (post_extract_proj self \<noteq> None) = (feature_dim_of md fe \<noteq> md)
         \<and> (feature_dim_of md fe \<noteq> md \<longrightarrow>
               post_extract_proj self = Some (Linear (feature_dim_of md fe) md True dev dt))
         \<and> (fe = None \<longrightarrow> post_extract_proj self = None)"
  proof (intro allI impI)
    fix self
    assume i: "init C md fe pe pdp lnf dp ep dev dt = Inr self"
    have n: "normalized_shape (post_extract_layer_norm self) = feature_dim_of md fe"
      by (simp add: init_fields(1) [OF i])
    have p1: "(post_extract_proj self \<noteq> None) = (feature_dim_of md fe \<noteq> md)"
      by (simp add: init_fields(2) [OF i])
    have p2: "feature_dim_of md fe \<noteq> md \<longrightarrow>
               post_extract_proj self = Some (Linear (feature_dim_of md fe) md True dev dt)"
      by (simp add: init_fields(2) [OF i])
    have p3: "fe = None \<longrightarrow> post_extract_proj self = None"
      by (simp add: init_fields(2) [OF i] feature_dim_of_def)
    from fd n p1 p2 p3
    show "(\<forall>e. fe = Some e \<longrightarrow> feature_dim_of md fe = out_dim e)
         \<and> (fe = None \<longrightarrow> feature_dim_of md fe = md)
         \<and> normalized_shape (post_extract_layer_norm self) = feature_dim_of md fe
         \<and> (post_extract_proj self \<noteq> None) = (feature_dim_of md fe \<noteq> md)
         \<and> (feature_dim_of md fe \<noteq> md \<longrightarrow>
               post_extract_proj self = Some (Linear (feature_dim_of md fe) md True dev dt))
         \<and> (fe = None \<longrightarrow> post_extract_proj self = None)"
      by (intro conjI) (erule conjunct1, erule conjunct2)
  qed
  from total fields show ?thesis
    by (rule conjI)
qed

theorem init_feature_dim_and_projection_witness:
  "(\<exists>self. init strict_ctors 256 (Some demo_extractor) (Some demo_encoder) (1 / 2) True 0
        (1 / 100000) (Some ''cuda:0'') (Some ''float16'') = Inr self
      \<and> normalized_shape (post_extract_layer_norm self) = 80
      \<and> post_extract_proj self = Some (Linear 80 256 True (Some ''cuda:0'') (Some ''float16'')))
   \<and> (\<exists>self. (init strict_ctors 256 None (Some demo_encoder) (1 / 2) True 0
        (1 / 100000) (Some ''cuda:0'') (Some ''float16'')
        :: string error + (int list list, int list, bool list list, nat, string, string, string) frontend)
        = Inr self
      \<and> normalized_shape (post_extract_layer_norm self) = 256
      \<and> post_extract_proj self = None)"
proof -
  have fd: "feature_dim_of 256 (Some demo_extractor) = 80"
    by (simp add: feature_dim_of_def demo_dims)
  have e1: "early_ctors_ok strict_ctors 256 (Some demo_extractor) (1 / 2) (1 / 100000)
     (Some ''cuda:0'') (Some ''float16'')"
    by (simp add: early_ctors_ok_def strict_ctors_fields fd)
  have e2: "early_ctors_ok strict_ctors 256
     (None :: (int list list, int list, nat, string) SequenceFeatureExtractor option)
     (1 / 2) (1 / 100000) (Some ''cuda:0'') (Some ''float16'')"
    by (simp add: early_ctors_ok_def strict_ctors_fields feature_dim_of_def)
  have f: "encoder_fits (Some demo_encoder) 256"
    by (simp add: encoder_fits_def demo_dims)
  have l: "late_ctors_ok strict_ctors 256 True 0 (1 / 100000) (Some ''cuda:0'') (Some ''float16'')"
    by (simp add: late_ctors_ok_def strict_ctors_fields)
  have a: "\<exists>self. init strict_ctors 256 (Some demo_extractor) (Some demo_encoder) (1 / 2) True 0
        (1 / 100000) (Some ''cuda:0'') (Some ''float16'') = Inr self
      \<and> normalized_shape (post_extract_layer_norm self) = 80
      \<and> post_extract_proj self = Some (Linear 80 256 True (Some ''cuda:0'') (Some ''float16''))"
    using init_feature_dim_and_projection
      [of strict_ctors 256 "Some demo_extractor" "1 / 2" "1 / 100000" "Some ''cuda:0''"
          "Some ''float16''" "Some demo_encoder" True 0]
    by (auto simp: e1 f l fd)
  have b: "\<exists>self. (init strict_ctors 256 None (Some demo_encoder) (1 / 2) True 0
        (1 / 100000) (Some ''cuda:0'') (Some ''float16'')
        :: string error + (int list list, int list, bool list list, nat, string, string, string) frontend)
        = Inr self
      \<and> normalized_shape (post_extract_layer_norm self) = 256
      \<and> post_extract_proj self = None"
    using init_feature_dim_and_projection
      [of strict_ctors 256
          "None :: (int list list, int list, nat, string) SequenceFeatureExtractor option"
          "1 / 2" "1 / 100000" "Some ''cuda:0''" "Some ''float16''" "Some demo_encoder" True 0]
    by (auto simp: e2 f l feature_dim_of_def)
  from a b show ?thesis by blast
qed

text \<open>
  C6. Whenever the constructor calls build their layers and the position encoder fits,
  construction returns a front-end. On every front-end that it returns, the
  post-extraction dropout exists exactly when \<^verbatim>\<open>post_extract_dropout_p > 0\<close> and is
  then the dropout of that probability; the final normalizer exists exactly when the
  \<^verbatim>\<open>layer_norm\<close> flag is set and is then the layer norm over \<^verbatim>\<open>model_dim\<close>; the final
  dropout exists exactly when \<^verbatim>\<open>dropout_p > 0\<close> and is then the dropout of that
  probability.
\<close>

theorem init_optional_layers:
  "(early_ctors_ok C md fe pdp ep dev dt \<and> encoder_fits pe md
      \<and> late_ctors_ok C md lnf dp ep dev dt
      \<longrightarrow> (\<exists>self. init C md fe pe pdp lnf dp ep dev dt = Inr self))
   \<and> (\<forall>self. init C md fe pe pdp lnf dp ep dev dt = Inr self \<longrightarrow>
         (post_extract_dropout self \<noteq> None) = (pdp > 0)
         \<and> (pdp > 0 \<longrightarrow> post_extract_dropout self = Some (Dropout pdp))
         \<and> (layer_norm self \<noteq> None) = lnf
         \<and> (lnf \<longrightarrow> layer_norm self = Some (LayerNorm md ep dev dt))
         \<and> (dropout self \<noteq> None) = (dp > 0)
         \<and> (dp > 0 \<longrightarrow> dropout self = Some (Dropout dp)))"
proof -
  have total: "early_ctors_ok C md fe pdp ep dev dt \<and> encoder_fits pe md
      \<and> late_ctors_ok C md lnf dp ep dev dt
      \<longrightarrow> (\<exists>self. init C md fe pe pdp lnf dp ep dev dt = Inr self)"
    by (simp add: init_returns_iff)
  have fields: "\<forall>self. init C md fe pe pdp lnf dp ep dev dt = Inr self \<longrightarrow>
         (post_extract_dropout self \<noteq> None) = (pdp > 0)
         \<and> (pdp > 0 \<longrightarrow> post_extract_dropout self = Some (Dropout pdp))
         \<and> (layer_norm self \<noteq> None) = lnf
         \<and> (lnf \<longrightarrow> layer_norm self = Some (LayerNorm md ep dev dt))
         \<and> (dropout self \<noteq> None) = (dp > 0)
         \<and> (dp > 0 \<longrightarrow> dropout self = Some (Dropout dp))"
  proof (intro allI impI)
    fix self
    assume i: "init C md fe pe pdp lnf dp ep dev dt = Inr self"
    from init_fields(3) [OF i] init_fields(4) [OF i] init_fields(5) [OF i]
    show "(post_extract_dropout self \<noteq> None) = (pdp > 0)
         \<and> (pdp > 0 \<longrightarrow> post_extract_dropout self = Some (Dropout pdp))
         \<and> (layer_norm self \<noteq> None) = lnf
         \<and> (lnf \<longrightarrow> layer_norm self = Some (LayerNorm md ep dev dt))
         \<and> (dropout self \<noteq> None) = (dp > 0)
         \<and> (dp > 0 \<longrightarrow> dropout self = Some (Dropout dp))"
      by simp
  qed
  from total fields show ?thesis by blast
qed

theorem init_optional_layers_witness:
  "(\<exists>self. init strict_ctors 256 (Some demo_extractor) (Some demo_encoder) (1 / 2) True 0
        (1 / 100000) (Some ''cuda:0'') (Some ''float16'') = Inr self
      \<and> post_extract_dropout self = Some (Dropout (1 / 2))
      \<and> layer_norm self
          = Some (LayerNorm 256 (1 / 100000) (Some ''cuda:0'') (Some ''float16''))
      \<and> dropout self = None)
   \<and> (\<exists>self. init strict_ctors 256 (Some demo_extractor) (Some demo_encoder) 0 False (1 / 10)
        (1 / 100000) (Some ''cuda:0'') (Some ''float16'') = Inr self
      \<and> post_extract_dropout self = None
      \<and> layer_norm self = None
      \<and> dropout self = Some (Dropout (1 / 10)))"
proof -
  have fd: "feature_dim_of 256 (Some demo_extractor) = 80"
    by (simp add: feature_dim_of_def demo_dims)
  have e1: "early_ctors_ok strict_ctors 256 (Some demo_extractor) (1 / 2) (1 / 100000)
     (Some ''cuda:0'') (Some ''float16'')"
    by (simp add: early_ctors_ok_def strict_ctors_fields fd)
  have e2: "early_ctors_ok strict_ctors 256 (Some demo_extractor) 0 (1 / 100000)
     (Some ''cuda:0'') (Some ''float16'')"
    by (simp add: early_ctors_ok_def strict_ctors_fields fd)
  have f: "encoder_fits (Some demo_encoder) 256"
    by (simp add: encoder_fits_def demo_dims)
  have l1: "late_ctors_ok strict_ctors 256 True 0 (1 / 100000) (Some ''cuda:0'') (Some ''float16'')"
    by (simp add: late_ctors_ok_def strict_ctors_fields)
  have l2: "late_ctors_ok strict_ctors 256 False (1 / 10) (1 / 100000)
     (Some ''cuda:0'') (Some ''float16'')"
    by (simp add: late_ctors_ok_def strict_ctors_fields)
  have a: "\<exists>self. init strict_ctors 256 (Some demo_extractor) (Some demo_encoder) (1 / 2) True 0
        (1 / 100000) (Some ''cuda:0'') (Some ''float16'') = Inr self
      \<and> post_extract_dropout self = Some (Dropout (1 / 2))
      \<and> layer_norm self
          = Some (LayerNorm 256 (1 / 100000) (Some ''cuda:0'') (Some ''float16''))
      \<and> dropout self = None"
    using init_optional_layers
      [of strict_ctors 256 "Some demo_extractor" "1 / 2" "1 / 100000" "Some ''cuda:0''"
          "Some ''float16''" "Some demo_encoder" True 0]
    by (auto simp: e1 f l1)
  have b: "\<exists>self. init strict_ctors 256 (Some demo_extractor) (Some demo_encoder) 0 False (1 / 10)
        (1 / 100000) (Some ''cuda:0'') (Some ''float16'') = Inr self
      \<and> post_extract_dropout self = None
      \<and> layer_norm self = None
      \<and> dropout self = Some (Dropout (1 / 10))"
    using init_optional_layers
      [of strict_ctors 256 "Some demo_extractor" 0 "1 / 100000" "Some ''cuda:0''"
          "Some ''float16''" "Some demo_encoder" False "1 / 10"]
    by (auto simp: e2 f l2)
  from a b show ?thesis by blast
qed


section \<open>The forward pass\<close>

text \<open>
  C1. A forward call (one that passes no incremental state) is the composition, in
  this order, of: the feature extraction when an extractor is present, which replaces the
  sequences and the lengths; the derivation of the padding mask; the post-extraction
  layer norm; the projection, the post-extraction dropout, the position encoder on the
  sequences and the padding mask, the final layer norm and the final dropout, each when
  present. A stage that is absent returns its input. An error of a stage ends the
  composition, on both sides.
\<close>

theorem forward_is_pipeline_in_order:
  "forward K seqs seq_lens None (self, w) = forward_spec K self seqs seq_lens (self, w)"
  by (rule forward_pipeline)

text \<open>
  C2. A forward call with an incremental state fails with the \<^verbatim>\<open>ValueError\<close> of the
  method, whatever the front-end and the collaborators are, and leaves the state as it
  found it: the world that every collaborator call would act on is untouched.
\<close>

theorem forward_rejects_state_bag:
  "forward K seqs seq_lens (Some state_bag) st
   = (Inl (ValueError
        ''`PretrainedWav2Vec2Frontend` does not support incremental evaluation.''), st)"
  by (simp add: forward_def raiseM_def)

text \<open>
  C7. When the layer norm over \<^verbatim>\<open>model_dim\<close> can be built, the constructor call with
  no feature extractor, no position encoder, both dropout probabilities zero and the
  \<^verbatim>\<open>layer_norm\<close> flag off returns a front-end, and on it a forward call derives the
  mask from the sequences and lengths it was given and applies the post-extraction layer
  norm, over \<^verbatim>\<open>model_dim\<close>, to the sequences it was given; nothing else runs, so no
  dropout is drawn.
\<close>

theorem forward_all_optional_stages_disabled:
  assumes "LayerNorm_raises C md ep dev dt = None"
  shows "\<exists>self. init C md None None 0 False 0 ep dev dt = Inr self
     \<and> (\<forall>K seqs seq_lens w.
          forward K seqs seq_lens None (self, w)
          = bindM (call_ext (k_to_padding_mask K seqs seq_lens)) (\<lambda>padding_mask.
            bindM (call_ext (k_LayerNorm K (LayerNorm md ep dev dt) seqs)) (\<lambda>out.
            returnM (out, padding_mask))) (self, w))"
proof -
  have e: "early_ctors_ok C md None 0 ep dev dt"
    using assms by (simp add: early_ctors_ok_def feature_dim_of_def)
  have f: "encoder_fits None md"
    by (simp add: encoder_fits_def)
  have l: "late_ctors_ok C md False 0 ep dev dt"
    by (simp add: late_ctors_ok_def)
  show ?thesis
    by (simp add: init_success [OF e f l] feature_dim_of_def forward_def bindM_assoc
        bindM_returnM bindM_get_field bindM_call_ext
        cong: sum.case_cong prod.case_cong)
qed

theorem forward_all_optional_stages_disabled_witness:
  "LayerNorm_raises strict_ctors 256 (1 / 100000) (None :: string option) (None :: string option)
     = None
   \<and> (\<exists>self. init strict_ctors 256 None None 0 False 0 (1 / 100000) None None = Inr self
        \<and> forward demo_kernels [[1, 2], [3, 4]] (Some [2, 1]) (None :: unit option) (self, 0)
          = (Inr ([[257, 258], [259, 260]], Some [[False, False], [False, True]]), (self, 1))
        \<and> forward demo_kernels [[1, 2], [3, 4]] None (None :: unit option) (self, 0)
          = (Inr ([[257, 258], [259, 260]], None), (self, 1)))"
proof -
  have h: "LayerNorm_raises strict_ctors 256 (1 / 100000) (None :: string option)
     (None :: string option) = None"
    by (simp add: strict_ctors_fields)
  have m: "to_padding_mask [[1, 2], [3, 4 :: int]] (Some [2, 1])
      = Some [[False, False], [False, True]]"
    by (simp add: to_padding_mask_def time_dim_def upt_rec)
  have "\<exists>self :: (int list list, int list, bool list list, nat, string, string, string) frontend.
      init strict_ctors 256 None None 0 False 0 (1 / 100000) None None = Inr self
      \<and> (\<forall>K seqs seq_lens w.
          forward K seqs seq_lens (None :: unit option) (self, w)
          = bindM (call_ext (k_to_padding_mask K seqs seq_lens)) (\<lambda>padding_mask.
            bindM (call_ext (k_LayerNorm K
               (LayerNorm 256 (1 / 100000) (None :: string option) (None :: string option))
               seqs)) (\<lambda>out.
            returnM (out, padding_mask))) (self, w))"
    by (rule forward_all_optional_stages_disabled [OF h])
  then obtain self :: "(int list list, int list, bool list list, nat, string, string, string) frontend"
    where i: "init strict_ctors 256 None None 0 False 0 (1 / 100000) None None = Inr self"
      and f: "\<And>K seqs seq_lens w.
          forward K seqs seq_lens (None :: unit option) (self, w)
          = bindM (call_ext (k_to_padding_mask K seqs seq_lens)) (\<lambda>padding_mask.
            bindM (call_ext (k_LayerNorm K
               (LayerNorm 256 (1 / 100000) (None :: string option) (None :: string option))
               seqs)) (\<lambda>out.
            returnM (out, padding_mask))) (self, w)"
    by blast
  have a: "forward demo_kernels [[1, 2], [3, 4]] (Some [2, 1]) (None :: unit option) (self, 0)
          = (Inr ([[257, 258], [259, 260]], Some [[False, False], [False, True]]), (self, 1))"
    by (simp add: f demo_kernels_fields bindM_mask_kernel m bindM_call_ext add_to_all_def
        returnM_apply)
  have b: "forward demo_kernels [[1, 2], [3, 4]] None (None :: unit option) (self, 0)
          = (Inr ([[257, 258], [259, 260]], None), (self, 1))"
    by (simp add: f demo_kernels_fields bindM_mask_kernel to_padding_mask_None bindM_call_ext
        add_to_all_def returnM_apply)
  from h i a b show ?thesis by blast
qed

text \<open>
  C9. A forward call ends on the front-end object it started on, whether it returns or
  raises: no field of the front-end is replaced. A second call therefore runs on the
  same front-end as the first.
\<close>

theorem forward_keeps_frontend:
  "fst (snd (forward K seqs seq_lens state_bag (self, w))) = self
   \<and> forward K seqs2 seq_lens2 state_bag2 (snd (forward K seqs seq_lens state_bag (self, w)))
     = forward K seqs2 seq_lens2 state_bag2
         (self, snd (snd (forward K seqs seq_lens state_bag (self, w))))"
proof -
  have "fst (snd (forward K seqs seq_lens state_bag (self, w))) = fst (self, w)"
    using keeps_self_forward [of K seqs seq_lens state_bag]
    unfolding keeps_self_def by blast
  then have a: "fst (snd (forward K seqs seq_lens state_bag (self, w))) = self"
    by simp
  then have "snd (forward K seqs seq_lens state_bag (self, w))
      = (self, snd (snd (forward K seqs seq_lens state_bag (self, w))))"
    by (metis prod.collapse)
  with a show ?thesis by simp
qed

text \<open>
  C10. A forward call is the derivation of the mask (the extraction when present, then
  the mask utility) followed by the stages of lines 131 to 146, which take the mask and
  the sequences and return sequences only; the pair returned holds the sequences of the
  last stage and the mask as it was derived, which is also the mask the position
  encoder is called with. So when a forward call returns, its mask is the mask that the
  derivation returned, and its sequences are what the later stages made, with that mask,
  of the sequences that the derivation returned.
\<close>

theorem forward_returns_derived_mask:
  "forward K seqs seq_lens None =
     bindM (derive_mask K seqs seq_lens) (\<lambda>(s, padding_mask).
     bindM (sequence_stages K padding_mask s) (\<lambda>out. returnM (out, padding_mask)))
   \<and> (\<forall>out pmask st'. forward K seqs seq_lens None st = (Inr (out, pmask), st') \<longrightarrow>
         (\<exists>sq st2. derive_mask K seqs seq_lens st = (Inr (sq, pmask), st2)
                    \<and> sequence_stages K pmask sq st2 = (Inr out, st')))"
  using forward_split [of K seqs seq_lens] forward_result [of K seqs seq_lens st]
  by blast

theorem forward_returns_derived_mask_witness:
  "forward demo_kernels [[1, 2, 3], [4, 5, 6]] (Some [3, 1]) (None :: unit option)
     (demo_frontend, 0)
   = (Inr ([[594, 595], [597, 256]], Some [[False, False], [False, True]]), (demo_frontend, 6))
   \<and> derive_mask demo_kernels [[1, 2, 3], [4, 5, 6]] (Some [3, 1]) (demo_frontend, 0)
     = (Inr ([[1, 2], [4, 5]], Some [[False, False], [False, True]]), (demo_frontend, 1))
   \<and> sequence_stages demo_kernels (Some [[False, False], [False, True]]) [[1, 2], [4, 5]]
       (demo_frontend, 1)
     = (Inr [[594, 595], [597, 256]], (demo_frontend, 6))"
proof -
  have "\<forall>out pmask st'.
      forward demo_kernels [[1, 2, 3], [4, 5, 6]] (Some [3, 1]) (None :: unit option)
        (demo_frontend, 0) = (Inr (out, pmask), st') \<longrightarrow>
      (\<exists>sq st2. derive_mask demo_kernels [[1, 2, 3], [4, 5, 6]] (Some [3, 1]) (demo_frontend, 0)
                   = (Inr (sq, pmask), st2)
                 \<and> sequence_stages demo_kernels pmask sq st2 = (Inr out, st'))"
    by (rule conjunct2 [OF forward_returns_derived_mask])
  with demo_forward obtain sq st2
    where d: "derive_mask demo_kernels [[1, 2, 3], [4, 5, 6]] (Some [3, 1]) (demo_frontend, 0)
              = (Inr (sq, Some [[False, False], [False, True]]), st2)"
      and s: "sequence_stages demo_kernels (Some [[False, False], [False, True]]) sq st2
              = (Inr [[594, 595], [597, 256]], (demo_frontend, 6))"
    by blast
  from d have "sq = [[1, 2], [4, 5]]" and "st2 = (demo_frontend, 1)"
    by (simp_all add: demo_derive_mask)
  with d s show ?thesis
    by (simp add: demo_forward)
qed

section \<open>The padding mask\<close>

text \<open>
  C4. With the mask utility of the specification, a forward call returns, next to the
  sequences of the last stage, the mask of the sequences and lengths as the extraction
  step left them, before any normalization. That mask is absent when those lengths are
  absent; otherwise it has one row per length, each as long as the time dimension of
  those sequences, where position \<open>i\<close> of row \<open>b\<close> is invalid exactly when \<open>i\<close> is at
  or after length \<open>b\<close>.
\<close>

theorem forward_mask_from_extracted:
  "forward (K\<lparr>k_to_padding_mask := mask_kernel\<rparr>) seqs seq_lens None
   = bindM (extract_step seqs seq_lens) (\<lambda>(s1, l1).
     bindM (sequence_stages (K\<lparr>k_to_padding_mask := mask_kernel\<rparr>) (to_padding_mask s1 l1) s1)
       (\<lambda>out. returnM (out, to_padding_mask s1 l1)))
   \<and> to_padding_mask s None = None
   \<and> (\<exists>rows. to_padding_mask s (Some lens) = Some rows \<and> length rows = length lens
         \<and> (\<forall>b<length lens. length (rows ! b) = time_dim s
               \<and> (\<forall>i<time_dim s. rows ! b ! i = (lens ! b \<le> int i))))"
proof -
  have "forward (K\<lparr>k_to_padding_mask := mask_kernel\<rparr>) seqs seq_lens None
   = bindM (extract_step seqs seq_lens) (\<lambda>(s1, l1).
     bindM (sequence_stages (K\<lparr>k_to_padding_mask := mask_kernel\<rparr>) (to_padding_mask s1 l1) s1)
       (\<lambda>out. returnM (out, to_padding_mask s1 l1)))"
    by (simp add: forward_split derive_mask_def bindM_assoc bindM_mask_kernel bindM_returnM
        split_def)
  with to_padding_mask_None [of s] to_padding_mask_Some [of s lens]
  show ?thesis by blast
qed

theorem forward_mask_from_extracted_witness:
  "forward (demo_kernels\<lparr>k_to_padding_mask := mask_kernel\<rparr>)
       [[1, 2, 3], [4, 5, 6]] (Some [3, 1]) (None :: unit option) (demo_frontend, 0)
     = (Inr ([[594, 595], [597, 256]], Some [[False, False], [False, True]]),
        (demo_frontend, 6))
   \<and> forward (demo_kernels\<lparr>k_to_padding_mask := mask_kernel\<rparr>)
       [[1, 2, 3], [4, 5, 6]] None (None :: unit option) (demo_frontend, 0)
     = (Inr ([[594, 595], [597, 598]], None), (demo_frontend, 6))
   \<and> extract_step [[1, 2, 3], [4, 5, 6]] (Some [3, 1]) (demo_frontend, 0)
     = (Inr ([[1, 2], [4, 5]], Some [2, 1]), (demo_frontend, 1))
   \<and> to_padding_mask [[1, 2], [4, 5 :: int]] (Some [2, 1]) = Some [[False, False], [False, True]]
   \<and> to_padding_mask [[1, 2], [4, 5 :: int]] None = None
   \<and> time_dim [[1, 2], [4, 5 :: int]] = 2"
proof -
  have k: "demo_kernels\<lparr>k_to_padding_mask := mask_kernel\<rparr> = demo_kernels"
    by (simp add: demo_kernels_def)
  show ?thesis
    using forward_mask_from_extracted
      [of demo_kernels "[[1, 2, 3], [4, 5, 6]]" "Some [3, 1]" "[[1, 2], [4, 5 :: int]]" "[2, 1]"]
    by (simp add: k demo_forward demo_forward_no_lengths demo_extract_step demo_mask
        to_padding_mask_None time_dim_def)
qed

section \<open>Placement of the layers\<close>

text \<open>
  C8, as the specification has it, fails: the constructor is given a device and a dtype
  and instantiates a dropout that has received neither.
\<close>

theorem init_placement_dropout_counterexample:
  "init strict_ctors 256 (Some demo_extractor) (Some demo_encoder) (1 / 2) True 0 (1 / 100000)
     (Some ''cuda:0'') (Some ''float16'') = Inr demo_frontend
   \<and> DropoutModule (Dropout (1 / 2)) \<in> set (instantiated demo_frontend)
   \<and> placement (DropoutModule (Dropout (1 / 2)) :: (string, string) module)
     \<noteq> Some (Some ''cuda:0'', Some ''float16'')"
  by (simp add: demo_frontend_init instantiated_def demo_frontend_fields)

text \<open>
  C8, as the code has it. Whenever the constructor calls build their layers and the
  position encoder fits, construction returns a front-end. On every front-end that it
  returns, each layer norm and the projection have received the device and the dtype
  that the constructor was given, unchanged; each dropout was constructed from its
  probability alone and has received no placement.
\<close>

theorem init_placement:
  "(early_ctors_ok C md fe pdp ep dev dt \<and> encoder_fits pe md
      \<and> late_ctors_ok C md lnf dp ep dev dt
      \<longrightarrow> (\<exists>self. init C md fe pe pdp lnf dp ep dev dt = Inr self))
   \<and> (\<forall>self. init C md fe pe pdp lnf dp ep dev dt = Inr self \<longrightarrow>
         (\<forall>m \<in> set (instantiated self).
            (case m of
               LayerNormModule n \<Rightarrow> placement m = Some (dev, dt)
             | LinearModule l \<Rightarrow> placement m = Some (dev, dt)
             | DropoutModule d \<Rightarrow> placement m = None)))"
proof -
  have total: "early_ctors_ok C md fe pdp ep dev dt \<and> encoder_fits pe md
      \<and> late_ctors_ok C md lnf dp ep dev dt
      \<longrightarrow> (\<exists>self. init C md fe pe pdp lnf dp ep dev dt = Inr self)"
    by (simp add: init_returns_iff)
  have placed: "\<forall>self. init C md fe pe pdp lnf dp ep dev dt = Inr self \<longrightarrow>
         (\<forall>m \<in> set (instantiated self).
            (case m of
               LayerNormModule n \<Rightarrow> placement m = Some (dev, dt)
             | LinearModule l \<Rightarrow> placement m = Some (dev, dt)
             | DropoutModule d \<Rightarrow> placement m = None))"
  proof (intro allI impI)
    fix self
    assume i: "init C md fe pe pdp lnf dp ep dev dt = Inr self"
    show "\<forall>m \<in> set (instantiated self).
            (case m of
               LayerNormModule n \<Rightarrow> placement m = Some (dev, dt)
             | LinearModule l \<Rightarrow> placement m = Some (dev, dt)
             | DropoutModule d \<Rightarrow> placement m = None)"
      by (auto simp: instantiated_def init_fields(1-5) [OF i] split: if_splits)
  qed
  from total placed show ?thesis
    by (rule conjI)
qed

theorem init_placement_witness:
  "\<exists>self. init strict_ctors 256 (Some demo_extractor) (Some demo_encoder) (1 / 2) True (1 / 10)
       (1 / 100000) (Some ''cuda:0'') (Some ''float16'') = Inr self
     \<and> instantiated self
       = [LayerNormModule (LayerNorm 80 (1 / 100000) (Some ''cuda:0'') (Some ''float16'')),
          LinearModule (Linear 80 256 True (Some ''cuda:0'') (Some ''float16'')),
          DropoutModule (Dropout (1 / 2)),
          LayerNormModule (LayerNorm 256 (1 / 100000) (Some ''cuda:0'') (Some ''float16'')),
          DropoutModule (Dropout (1 / 10))]
     \<and> map placement (instantiated self)
       = [Some (Some ''cuda:0'', Some ''float16''), Some (Some ''cuda:0'', Some ''float16''),
          None, Some (Some ''cuda:0'', Some ''float16''), None]"
proof -
  have fd: "feature_dim_of 256 (Some demo_extractor) = 80"
    by (simp add: feature_dim_of_def demo_dims)
  have e: "early_ctors_ok strict_ctors 256 (Some demo_extractor) (1 / 2) (1 / 100000)
     (Some ''cuda:0'') (Some ''float16'')"
    by (simp add: early_ctors_ok_def strict_ctors_fields fd)
  have f: "encoder_fits (Some demo_encoder) 256"
    by (simp add: encoder_fits_def demo_dims)
  have l: "late_ctors_ok strict_ctors 256 True (1 / 10) (1 / 100000)
     (Some ''cuda:0'') (Some ''float16'')"
    by (simp add: late_ctors_ok_def strict_ctors_fields)
  from init_placement
      [of strict_ctors 256 "Some demo_extractor" "1 / 2" "1 / 100000" "Some ''cuda:0''"
          "Some ''float16''" "Some demo_encoder" True "1 / 10"] e f l
  obtain self where i: "init strict_ctors 256 (Some demo_extractor) (Some demo_encoder) (1 / 2)
       True (1 / 10) (1 / 100000) (Some ''cuda:0'') (Some ''float16'') = Inr self"
    by blast
  have inst: "instantiated self
       = [LayerNormModule (LayerNorm 80 (1 / 100000) (Some ''cuda:0'') (Some ''float16'')),
          LinearModule (Linear 80 256 True (Some ''cuda:0'') (Some ''float16'')),
          DropoutModule (Dropout (1 / 2)),
          LayerNormModule (LayerNorm 256 (1 / 100000) (Some ''cuda:0'') (Some ''float16'')),
          DropoutModule (Dropout (1 / 10))]"
    by (simp add: instantiated_def init_fields(1-5) [OF i] fd)
  from i inst show ?thesis
    by (intro exI [of _ self]) simp
qed

end
